theory Spec2Isabelle
  imports Main "HOL-Library.Word" "HOL-Library.List_Lexorder" "HOL-Library.Multiset"
begin

section \<open>The key bindings tab of Extraterm (keybindingstab.ts)\<close>

subsection \<open>Strings\<close>

text \<open>
  A JavaScript string is a sequence of UTF-16 code units. The glyphs produced by
  \<open>formatShortcut\<close> (U+2318, U+21E7, U+2325) lie outside the 8-bit characters of
  \<open>string\<close>, so a string of the program is a list of 16-bit words. The relational
  operators \<open><\<close> and \<open>></\<close> of JavaScript on two strings compare them code unit by
  code unit, which is the lexicographic order on lists of words.
\<close>

type_synonym jsstring = "16 word list"

definition str :: "string \<Rightarrow> jsstring" where
  \<comment> \<open>an ASCII literal of the source, as code units\<close>
  "str s = map (\<lambda>c. word_of_nat (of_char c)) s"

definition plus_sign :: "16 word" where
  "plus_sign = 0x2B"

fun split_plus :: "jsstring \<Rightarrow> jsstring list" where
  \<comment> \<open>\<open>code.split(/\+/g)\<close>: the pieces between the plus signs; never an empty array\<close>
  "split_plus [] = [[]]"
| "split_plus (c # cs) =
     (if c = plus_sign then [] # split_plus cs
      else (case split_plus cs of
              [] \<Rightarrow> [[c]]
            | t # ts \<Rightarrow> (c # t) # ts))"

fun join :: "jsstring \<Rightarrow> jsstring list \<Rightarrow> jsstring" where
  \<comment> \<open>\<open>Array.prototype.join(sep)\<close> on an array of strings\<close>
  "join sep [] = []"
| "join sep [x] = x"
| "join sep (x # y # ys) = x @ sep @ join sep (y # ys)"

subsection \<open>Label lookup and shortcut formatting\<close>

text \<open>
  The table of labels is read from \<open>keybindingstext.json\<close>, a data file: the lookup
  \<open>humanText.commands[commandCode]\<close> is a parameter \<open>commands\<close>, with \<open>None\<close> for
  \<open>undefined\<close>. In \<open>str || commandCode\<close> the empty string is falsy as well.
  \<open>process.platform\<close> is a parameter too.
\<close>

definition commandName :: "(jsstring \<Rightarrow> jsstring option) \<Rightarrow> jsstring \<Rightarrow> jsstring" where
  "commandName commands commandCode =
     (case commands commandCode of
        None \<Rightarrow> commandCode
      | Some s \<Rightarrow> (if s = [] then commandCode else s))"

definition shortcutPart :: "jsstring \<Rightarrow> jsstring" where
  \<comment> \<open>the \<open>switch\<close> inside \<open>parts.map\<close>\<close>
  "shortcutPart p =
     (if p = str ''Cmd'' then [0x2318]
      else if p = str ''Shift'' then [0x21E7]
      else if p = str ''Alt'' then [0x2325]
      else if p = str ''Ctrl'' then str ''^''
      else p)"

definition formatShortcut :: "jsstring \<Rightarrow> jsstring \<Rightarrow> jsstring" where
  "formatShortcut platform code =
     (if platform \<noteq> str ''darwin'' then code
      else join [] (map shortcutPart (split_plus code)))"

subsection \<open>Configuration and model data\<close>

text \<open>
  \<open>Config\<close> and \<open>KeyBindingInfo\<close> are declared in \<open>config.ts\<close>. Of a \<open>Config\<close>
  the tab reads \<open>keyBindingsFilename\<close> and \<open>systemConfig.keyBindingsFiles\<close>; of a
  \<open>KeyBindingInfo\<close> the template reads \<open>filename\<close> and \<open>name\<close>.
  \<open>Date.now()\<close> is a whole number of milliseconds, read from the clock by the caller
  and handed in as \<open>now\<close>.
\<close>

record KeyBindingInfo =
  name :: jsstring
  filename :: jsstring

record SystemConfig =
  keyBindingsFiles :: "KeyBindingInfo list"

record Config =
  systemConfig :: SystemConfig
  keyBindingsFilename :: jsstring

record ModelData =
  selectedKeyBindings :: jsstring
  keyBindingsFiles :: "KeyBindingInfo list"
  keyBindingsContextsStamp :: int

subsection \<open>The tab and the two managers it talks to\<close>

text \<open>
  A manager is an object; the tab holds a reference to it or \<open>null\<close>. A reference is a
  number, \<open>null\<close> is \<open>None\<close>. The managers are implemented in other files
  (\<open>config.ts\<close>, \<open>keybindingmanager.ts\<close>), so they are kept abstract: every call
  the tab makes on a manager is appended to \<open>calls\<close>, and \<open>configOf m\<close> is what
  \<open>getConfig()\<close> of config manager \<open>m\<close> returns (\<open>None\<close> for \<open>null\<close>). The Vue
  instance \<open>_vm\<close> and the DOM of the element are left out.
\<close>

datatype call =
    CM_registerChangeListener nat
  | CM_unregisterChangeListener nat
  | CM_getConfig nat
  | CM_setConfig nat Config
  | KBM_registerChangeListener nat
  | KBM_unregisterChangeListener nat

datatype error = TypeError

datatype ModelField = SelectedKeyBindings | KeyBindingsFiles | KeyBindingsContextsStamp

text \<open>
  Vue watches \<open>_data\<close>: an assignment to one of its fields goes through a setter.
  \<open>assignments\<close> lists the fields assigned to, in the order of the assignments.
\<close>

record EtKeyBindingsTab =
  configManager :: "nat option"
  keyBindingManager :: "nat option"
  data :: ModelData
  assignments :: "ModelField list"
  configOf :: "nat \<Rightarrow> Config option"
  calls :: "call list"

text \<open>
  A method that can throw returns \<open>Inl (e, s)\<close>, the error with the state at the throw,
  or \<open>Inr s\<close>, the state at its normal return.
\<close>

type_synonym completion = "(error \<times> EtKeyBindingsTab) + EtKeyBindingsTab"

definition call_manager :: "call \<Rightarrow> EtKeyBindingsTab \<Rightarrow> EtKeyBindingsTab" where
  "call_manager c st = st\<lparr>calls := calls st @ [c]\<rparr>"

definition getConfig :: "nat \<Rightarrow> EtKeyBindingsTab \<Rightarrow> Config option \<times> EtKeyBindingsTab" where
  "getConfig m st = (configOf st m, call_manager (CM_getConfig m) st)"

definition ConfigManager_setConfig :: "nat \<Rightarrow> Config \<Rightarrow> EtKeyBindingsTab \<Rightarrow> EtKeyBindingsTab" where
  \<comment> \<open>Modelled from the spec: \<open>ConfigManager.setConfig\<close> (config.ts) is missing. After
      \<open>submit\<close> the store's current snapshot is the one submitted. When the store
      notifies its listeners is left open: a notification is a step of its own.\<close>
  "ConfigManager_setConfig m c st =
     (call_manager (CM_setConfig m c) st)\<lparr>configOf := (configOf st)(m := Some c)\<rparr>"

definition initProperties :: "int \<Rightarrow> EtKeyBindingsTab \<Rightarrow> EtKeyBindingsTab" where
  "initProperties now st =
     st\<lparr>configManager := None,
        keyBindingManager := None,
        data := \<lparr>selectedKeyBindings = [], keyBindingsFiles = [],
                 keyBindingsContextsStamp = now\<rparr>\<rparr>"

definition createdCallback :: "int \<Rightarrow> EtKeyBindingsTab \<Rightarrow> EtKeyBindingsTab" where
  "createdCallback now st = initProperties now st"

definition setKeyBindingManager :: "nat option \<Rightarrow> EtKeyBindingsTab \<Rightarrow> EtKeyBindingsTab" where
  "setKeyBindingManager newKeyBindingManager st =
     (let st1 = (case keyBindingManager st of
                   None \<Rightarrow> st
                 | Some old \<Rightarrow> call_manager (KBM_unregisterChangeListener old) st);
          st2 = st1\<lparr>keyBindingManager := newKeyBindingManager\<rparr>
      in case newKeyBindingManager of
           None \<Rightarrow> st2
         | Some m \<Rightarrow> call_manager (KBM_registerChangeListener m) st2)"

definition onKeyBindingChange :: "int \<Rightarrow> EtKeyBindingsTab \<Rightarrow> EtKeyBindingsTab" where
  "onKeyBindingChange now st =
     st\<lparr>data := (data st)\<lparr>keyBindingsContextsStamp := now\<rparr>,
        assignments := assignments st @ [KeyBindingsContextsStamp]\<rparr>"

definition setConfig :: "Config option \<Rightarrow> EtKeyBindingsTab \<Rightarrow> completion" where
  \<comment> \<open>\<open>_setConfig\<close>; reading \<open>config.systemConfig\<close> of \<open>null\<close> throws\<close>
  "setConfig config st =
     (case config of
        None \<Rightarrow> Inl (TypeError, st)
      | Some c \<Rightarrow>
          (let st1 = (if length (keyBindingsFiles (data st))
                         \<noteq> length (SystemConfig.keyBindingsFiles (systemConfig c))
                      then st\<lparr>data := (data st)\<lparr>keyBindingsFiles :=
                                       SystemConfig.keyBindingsFiles (systemConfig c)\<rparr>,
                              assignments := assignments st @ [KeyBindingsFiles]\<rparr>
                      else st)
           in Inr (if selectedKeyBindings (data st1) \<noteq> keyBindingsFilename c
                   then st1\<lparr>data := (data st1)\<lparr>selectedKeyBindings := keyBindingsFilename c\<rparr>,
                            assignments := assignments st1 @ [SelectedKeyBindings]\<rparr>
                   else st1)))"

definition configChangeListener :: "nat \<Rightarrow> EtKeyBindingsTab \<Rightarrow> completion" where
  \<comment> \<open>the arrow function registered by \<open>setConfigManager\<close>; it closes over the
      parameter \<open>configManager\<close>, here \<open>m\<close>\<close>
  "configChangeListener m st = (case getConfig m st of (c, st1) \<Rightarrow> setConfig c st1)"

definition setConfigManager :: "nat option \<Rightarrow> EtKeyBindingsTab \<Rightarrow> completion" where
  "setConfigManager cm st =
     (let st1 = st\<lparr>configManager := cm\<rparr>
      in case cm of
           None \<Rightarrow> Inl (TypeError, st1)
         | Some m \<Rightarrow>
             (case getConfig m (call_manager (CM_registerChangeListener m) st1) of
                (c, st2) \<Rightarrow> setConfig c st2))"

definition detachedCallback :: "EtKeyBindingsTab \<Rightarrow> EtKeyBindingsTab" where
  "detachedCallback st =
     (let st1 = (case configManager st of
                   None \<Rightarrow> st
                 | Some m \<Rightarrow> call_manager (CM_unregisterChangeListener m) st)
      in case keyBindingManager st1 of
           None \<Rightarrow> st1
         | Some m \<Rightarrow> call_manager (KBM_unregisterChangeListener m) st1)"

definition dataChanged :: "ModelData \<Rightarrow> EtKeyBindingsTab \<Rightarrow> completion" where
  \<comment> \<open>\<open>_dataChanged\<close>, without the logging of its decorator; \<open>_.cloneDeep\<close> of a
      value is the value, and of \<open>null\<close> is \<open>null\<close>, whose field cannot be read\<close>
  "dataChanged newVal st =
     (case configManager st of
        None \<Rightarrow> Inl (TypeError, st)
      | Some m \<Rightarrow>
          (case getConfig m st of
             (None, st1) \<Rightarrow> Inl (TypeError, st1)
           | (Some newConfig, st1) \<Rightarrow>
               (if keyBindingsFilename newConfig \<noteq> selectedKeyBindings newVal
                then Inr (ConfigManager_setConfig m
                            (newConfig\<lparr>keyBindingsFilename := selectedKeyBindings newVal\<rparr>) st1)
                else Inr st1)))"

fun notifications :: "int list \<Rightarrow> EtKeyBindingsTab \<Rightarrow> EtKeyBindingsTab" where
  \<comment> \<open>the key binding manager notifies the tab once for each clock reading of the list\<close>
  "notifications [] st = st"
| "notifications (now # nows) st = notifications nows (onKeyBindingChange now st)"

definition final :: "completion \<Rightarrow> EtKeyBindingsTab" where
  \<comment> \<open>the state a method leaves behind, whether it returned or threw\<close>
  "final r = (case r of Inl (e, st) \<Rightarrow> st | Inr st \<Rightarrow> st)"

definition returned :: "completion \<Rightarrow> bool" where
  "returned r = (case r of Inl _ \<Rightarrow> False | Inr _ \<Rightarrow> True)"

fun setConfigCalls :: "call list \<Rightarrow> (nat \<times> Config) list" where
  "setConfigCalls [] = []"
| "setConfigCalls (CM_setConfig m c # cs) = (m, c) # setConfigCalls cs"
| "setConfigCalls (_ # cs) = setConfigCalls cs"

fun registerCalls :: "call list \<Rightarrow> call list" where
  "registerCalls [] = []"
| "registerCalls (CM_registerChangeListener m # cs) = CM_registerChangeListener m # registerCalls cs"
| "registerCalls (KBM_registerChangeListener m # cs) = KBM_registerChangeListener m # registerCalls cs"
| "registerCalls (_ # cs) = registerCalls cs"

definition wellFormedConfig :: "Config \<Rightarrow> bool" where
  \<comment> \<open>the selected file of a snapshot is none yet, or one of the snapshot's own files\<close>
  "wellFormedConfig c \<longleftrightarrow>
     keyBindingsFilename c = []
     \<or> keyBindingsFilename c \<in> set (map filename (SystemConfig.keyBindingsFiles (systemConfig c)))"

definition selectionInvariant :: "ModelData \<Rightarrow> bool" where
  \<comment> \<open>the invariant the specification states for the model\<close>
  "selectionInvariant d \<longleftrightarrow>
     selectedKeyBindings d = [] \<or> selectedKeyBindings d \<in> set (map filename (keyBindingsFiles d))"

subsection \<open>The table of one context\<close>

text \<open>
  \<open>context.keyBindings\<close> is a reference to an array that the key binding manager
  owns. \<open>_.clone\<close> makes a new array with the same elements and \<open>sort\<close> reorders an
  array in place, so the arrays live in a store: an address is an index into the list
  of all arrays, and a new array is put at the end.
\<close>

record KeyBinding =
  command :: jsstring
  shortcut :: jsstring

type_synonym store = "KeyBinding list list"

record KeyBindingMapping =
  keyBindings :: nat

definition lodash_clone :: "nat \<Rightarrow> store \<Rightarrow> nat \<times> store" where
  "lodash_clone a h = (length h, h @ [h ! a])"

fun insort_cmp :: "('a \<Rightarrow> 'a \<Rightarrow> int) \<Rightarrow> 'a \<Rightarrow> 'a list \<Rightarrow> 'a list" where
  "insort_cmp cmp x [] = [x]"
| "insort_cmp cmp x (y # ys) =
     (if cmp x y \<le> 0 then x # y # ys else y # insort_cmp cmp x ys)"

fun array_sort :: "('a \<Rightarrow> 'a \<Rightarrow> int) \<Rightarrow> 'a list \<Rightarrow> 'a list" where
  \<comment> \<open>\<open>Array.prototype.sort(comparefn)\<close>. ECMAScript leaves the algorithm to the
      engine; this is the insertion sort engines of that time ran on short arrays.\<close>
  "array_sort cmp [] = []"
| "array_sort cmp (x # xs) = insort_cmp cmp x (array_sort cmp xs)"

definition sort_in_place :: "('a \<Rightarrow> 'a \<Rightarrow> int) \<Rightarrow> nat \<Rightarrow> 'a list list \<Rightarrow> 'a list list" where
  "sort_in_place cmp a h = h[a := array_sort cmp (h ! a)]"

definition compareBindings :: "(jsstring \<Rightarrow> jsstring option) \<Rightarrow> KeyBinding \<Rightarrow> KeyBinding \<Rightarrow> int" where
  \<comment> \<open>the comparison function handed to \<open>bindings.sort\<close>\<close>
  "compareBindings commands a b =
     (let nameA = commandName commands (command a);
          nameB = commandName commands (command b)
      in if nameA < nameB then - 1 else (if nameA > nameB then 1 else 0))"

definition tableHead :: jsstring where
  "tableHead = str ''<table class='table'>\<newline>    <tr>\<newline>      <th class=\"col-md-7\">Command</th>\<newline>      <th class=\"col-md-2\">Shortcut</th>\<newline>      <th class=\"col-md-3\">Code</th>\<newline>    </tr>''"

definition tableRow :: "(jsstring \<Rightarrow> jsstring option) \<Rightarrow> jsstring \<Rightarrow> KeyBinding \<Rightarrow> jsstring" where
  \<comment> \<open>the template of one row; \<open>CLASS_KEYCAP\<close> is the constant \<open>"CLASS_KEYCAP"\<close>\<close>
  "tableRow commands platform binding =
     str ''<tr>\<newline>        <td class=\"col-md-7\">'' @ commandName commands (command binding)
     @ str ''</td>\<newline>        <td class=\"col-md-2\"><div class='CLASS_KEYCAP'><span>''
     @ formatShortcut platform (shortcut binding)
     @ str ''</span></div></td>\<newline>        <td class=\"col-md-3\">'' @ command binding
     @ str ''</td></tr>''"

definition formatKeyBindingsMapping ::
  "(jsstring \<Rightarrow> jsstring option) \<Rightarrow> jsstring \<Rightarrow> KeyBindingMapping \<Rightarrow> store
     \<Rightarrow> (error + jsstring) \<times> store" where
  \<comment> \<open>returns the text, or the error thrown, and the store afterwards; a
      \<open>keyBindings\<close> that refers to no array is \<open>undefined\<close>, which \<open>_.clone\<close>
      returns and whose \<open>sort\<close> cannot be read\<close>
  "formatKeyBindingsMapping commands platform context h =
     (if keyBindings context < length h
      then (case lodash_clone (keyBindings context) h of
              (bindings, h1) \<Rightarrow>
                (let h2 = sort_in_place (compareBindings commands) bindings h1
                 in (Inr (tableHead
                          @ join (str ''\<newline>'')
                              (map (tableRow commands platform) (h2 ! bindings))
                          @ str ''</table>''), h2)))
      else (Inl TypeError, h))"

subsection \<open>Example data\<close>

definition profile :: "string \<Rightarrow> KeyBindingInfo" where
  "profile f = \<lparr>name = str f, filename = str f\<rparr>"

definition exampleConfig :: "string list \<Rightarrow> string \<Rightarrow> Config" where
  "exampleConfig fs f =
     \<lparr>systemConfig = \<lparr>SystemConfig.keyBindingsFiles = map profile fs\<rparr>,
      keyBindingsFilename = str f\<rparr>"

definition exampleTab :: "Config option \<Rightarrow> EtKeyBindingsTab" where
  \<comment> \<open>a tab created at time 1000; every config manager holds the given snapshot\<close>
  "exampleTab c =
     createdCallback 1000
       \<lparr>configManager = None, keyBindingManager = None,
        data = \<lparr>selectedKeyBindings = [], keyBindingsFiles = [], keyBindingsContextsStamp = 0\<rparr>,
        assignments = [], configOf = (\<lambda>m. c), calls = []\<rparr>"

definition exampleLabels :: "jsstring \<Rightarrow> jsstring option" where
  "exampleLabels code =
     (if code = str ''zoom'' then Some (str ''Zoom'')
      else if code = str ''copy'' then Some (str ''Copy'')
      else None)"

definition zoomBinding :: KeyBinding where
  "zoomBinding = \<lparr>command = str ''zoom'', shortcut = str ''Ctrl+Z''\<rparr>"

definition copyBinding :: KeyBinding where
  "copyBinding = \<lparr>command = str ''copy'', shortcut = str ''Ctrl+C''\<rparr>"

section \<open>Properties\<close>

lemmas example_defs =
  exampleTab_def createdCallback_def initProperties_def exampleConfig_def profile_def

subsection \<open>The stamp of the key bindings\<close>

lemma notifications_eq:
  "notifications nows st =
     st\<lparr>data := (data st)\<lparr>keyBindingsContextsStamp :=
                               last (keyBindingsContextsStamp (data st) # nows)\<rparr>,
        assignments := assignments st @ replicate (length nows) KeyBindingsContextsStamp\<rparr>"
proof (induction nows arbitrary: st)
  case Nil
  show ?case by simp
next
  case (Cons t ts)
  show ?case
    by (simp add: Cons.IH onKeyBindingChange_def replicate_append_same)
qed

text \<open>
  Claim C1 says that the revision of the bindings is a counter: N notifications raise it
  by exactly N. The field is \<open>keyBindingsContextsStamp\<close> and the handler stores
  \<open>Date.now()\<close> in it. A notification in the millisecond in which the tab was created
  leaves the stamp as it was, so one notification does not raise it by one.
\<close>

theorem stamp_not_incremented_by_notification:
  "keyBindingsContextsStamp (data (onKeyBindingChange 1000 (exampleTab None)))
     \<noteq> keyBindingsContextsStamp (data (exampleTab None)) + 1"
  by (simp add: onKeyBindingChange_def example_defs)

text \<open>
  Claim C1, amended: after any number of notifications the stamp is the clock reading
  of the last one (the old stamp when there was none), whatever the bindings are; each
  notification assigns the stamp once and touches no other field of the model; and when
  the clock never runs backwards the stamp never decreases.
\<close>

theorem notifications_stamp_is_last_clock_reading:
  "keyBindingsContextsStamp (data (notifications nows st))
     = last (keyBindingsContextsStamp (data st) # nows)
   \<and> selectedKeyBindings (data (notifications nows st)) = selectedKeyBindings (data st)
   \<and> keyBindingsFiles (data (notifications nows st)) = keyBindingsFiles (data st)
   \<and> assignments (notifications nows st)
       = assignments st @ replicate (length nows) KeyBindingsContextsStamp
   \<and> (sorted (keyBindingsContextsStamp (data st) # nows) \<longrightarrow>
        keyBindingsContextsStamp (data st)
          \<le> keyBindingsContextsStamp (data (notifications nows st)))"
proof -
  have "sorted (x # nows) \<Longrightarrow> x \<le> last (x # nows)" for x :: int
    by (cases nows) auto
  then show ?thesis
    by (simp add: notifications_eq)
qed

theorem notifications_stamp_witness:
  "keyBindingsContextsStamp (data (notifications [1000, 1000, 1003] (exampleTab None))) = 1003
   \<and> sorted (keyBindingsContextsStamp (data (exampleTab None)) # [1000, 1000, 1003])
   \<and> keyBindingsContextsStamp (data (exampleTab None)) \<le> 1003"
  using notifications_stamp_is_last_clock_reading [of "[1000, 1000, 1003]" "exampleTab None"]
  by (simp add: example_defs)

subsection \<open>Selecting a profile\<close>

lemma setConfigCalls_append:
  "setConfigCalls (xs @ ys) = setConfigCalls xs @ setConfigCalls ys"
  by (induction xs rule: setConfigCalls.induct) simp_all

lemma registerCalls_append:
  "registerCalls (xs @ ys) = registerCalls xs @ registerCalls ys"
  by (induction xs rule: registerCalls.induct) simp_all

text \<open>
  Claim C2 says that selecting a file name that is not in the list of profiles fails
  with an UnknownProfileError and submits nothing. \<open>_dataChanged\<close> never looks at the
  list: with no profile at all in the model, the selection of \<open>x.json\<close> returns
  normally and hands the config manager a snapshot that names \<open>x.json\<close>.
\<close>

theorem dataChanged_submits_unknown_profile:
  "dataChanged (data (exampleTab None)\<lparr>selectedKeyBindings := str ''x.json''\<rparr>)
     ((exampleTab (Some (exampleConfig [] [])))\<lparr>configManager := Some 0\<rparr>)
   = Inr (ConfigManager_setConfig 0 (exampleConfig [] ''x.json'')
           (call_manager (CM_getConfig 0)
              ((exampleTab (Some (exampleConfig [] [])))\<lparr>configManager := Some 0\<rparr>)))"
  by (simp add: dataChanged_def getConfig_def example_defs str_def)

text \<open>
  Claim C2, amended: for every list of profiles and every selected file name, in the list
  or not, \<open>_dataChanged\<close> on a tab whose config manager holds a snapshot \<open>c\<close> returns
  normally, leaves the model as it is, reads the snapshot once and submits \<open>c\<close> with
  the selected name exactly when that name differs from the stored one.
\<close>

theorem dataChanged_checks_no_membership:
  assumes "configManager st = Some m" and "configOf st m = Some c"
  shows "returned (dataChanged newVal st)
         \<and> data (final (dataChanged newVal st)) = data st
         \<and> assignments (final (dataChanged newVal st)) = assignments st
         \<and> calls (final (dataChanged newVal st)) = calls st @ CM_getConfig m #
                (if keyBindingsFilename c \<noteq> selectedKeyBindings newVal
                 then [CM_setConfig m (c\<lparr>keyBindingsFilename := selectedKeyBindings newVal\<rparr>)]
                 else [])"
  using assms
  by (simp add: dataChanged_def getConfig_def ConfigManager_setConfig_def call_manager_def
      returned_def final_def)

theorem dataChanged_checks_no_membership_witness:
  "returned (dataChanged (data (exampleTab None)\<lparr>selectedKeyBindings := str ''x.json''\<rparr>)
            ((exampleTab (Some (exampleConfig [] [])))\<lparr>configManager := Some 0\<rparr>))
   \<and> calls (final (dataChanged (data (exampleTab None)\<lparr>selectedKeyBindings := str ''x.json''\<rparr>)
            ((exampleTab (Some (exampleConfig [] [])))\<lparr>configManager := Some 0\<rparr>)))
      = [CM_getConfig 0, CM_setConfig 0 (exampleConfig [] ''x.json'')]"
  using dataChanged_checks_no_membership
      [of "(exampleTab (Some (exampleConfig [] [])))\<lparr>configManager := Some 0\<rparr>" 0
        "exampleConfig [] []"
        "data (exampleTab None)\<lparr>selectedKeyBindings := str ''x.json''\<rparr>"]
  by (simp add: example_defs str_def)

text \<open>
  Claim C3: when the selected file name is the one the config manager's snapshot
  already has, \<open>_dataChanged\<close> only reads the snapshot and calls no \<open>setConfig\<close>; and
  whenever it does call \<open>setConfig\<close>, the selected name differs from the stored one.
\<close>

theorem dataChanged_same_filename_no_setConfig:
  "(configManager st = Some m \<and> configOf st m = Some C
      \<and> selectedKeyBindings newVal = keyBindingsFilename C
     \<longrightarrow> dataChanged newVal st = Inr (call_manager (CM_getConfig m) st))
   \<and> (setConfigCalls (calls (final (dataChanged newVal st))) \<noteq> setConfigCalls (calls st)
     \<longrightarrow> (\<exists>m C. configManager st = Some m \<and> configOf st m = Some C
            \<and> selectedKeyBindings newVal \<noteq> keyBindingsFilename C))"
  by (auto simp: dataChanged_def getConfig_def ConfigManager_setConfig_def call_manager_def
      final_def setConfigCalls_append split: option.splits)

theorem dataChanged_same_filename_witness:
  "dataChanged (data (exampleTab None)\<lparr>selectedKeyBindings := str ''a.json''\<rparr>)
     ((exampleTab (Some (exampleConfig [''a.json''] ''a.json'')))\<lparr>configManager := Some 0\<rparr>)
   = Inr (call_manager (CM_getConfig 0)
           ((exampleTab (Some (exampleConfig [''a.json''] ''a.json'')))\<lparr>configManager := Some 0\<rparr>))
   \<and> setConfigCalls (calls (call_manager (CM_getConfig 0)
           ((exampleTab (Some (exampleConfig [''a.json''] ''a.json'')))\<lparr>configManager := Some 0\<rparr>)))
      = []"
  using dataChanged_same_filename_no_setConfig
      [of "(exampleTab (Some (exampleConfig [''a.json''] ''a.json'')))\<lparr>configManager := Some 0\<rparr>" 0
        "exampleConfig [''a.json''] ''a.json''"
        "data (exampleTab None)\<lparr>selectedKeyBindings := str ''a.json''\<rparr>"]
  by (simp add: example_defs call_manager_def)

subsection \<open>Attaching the managers\<close>

text \<open>
  Claim C4 says that attaching a second time, with no detach in between, fails with an
  AlreadyAttachedError. \<open>setConfigManager\<close> called twice with the same manager returns
  normally both times and has registered a listener twice.
\<close>

theorem setConfigManager_twice_returns:
  "setConfigManager (Some 0)
     (final (setConfigManager (Some 0) (exampleTab (Some (exampleConfig [] [])))))
   = Inr ((exampleTab (Some (exampleConfig [] [])))
           \<lparr>configManager := Some 0,
            calls := [CM_registerChangeListener 0, CM_getConfig 0,
                      CM_registerChangeListener 0, CM_getConfig 0]\<rparr>)"
  by (simp add: setConfigManager_def final_def setConfig_def getConfig_def call_manager_def
      example_defs str_def)

text \<open>
  Claim C4, amended: attaching is never refused because the tab is attached already.
  \<open>setConfigManager\<close> with a manager that holds a snapshot returns normally in every
  state; each call of \<open>setConfigManager\<close> and each call of \<open>setKeyBindingManager\<close>
  with a manager registers exactly one change listener, on the manager it is given.
\<close>

theorem attaching_registers_one_listener:
  "(configOf st m = Some c \<longrightarrow> returned (setConfigManager (Some m) st))
   \<and> registerCalls (calls (final (setConfigManager (Some m) st)))
       = registerCalls (calls st) @ [CM_registerChangeListener m]
   \<and> registerCalls (calls (setKeyBindingManager (Some k) st))
       = registerCalls (calls st) @ [KBM_registerChangeListener k]"
  by (auto simp: setConfigManager_def setKeyBindingManager_def getConfig_def call_manager_def
      setConfig_def final_def returned_def registerCalls_append Let_def split: option.splits)

theorem attaching_registers_one_listener_witness:
  "returned (setConfigManager (Some 0) (exampleTab (Some (exampleConfig [] []))))
   \<and> registerCalls (calls (final
         (setConfigManager (Some 0) (exampleTab (Some (exampleConfig [] []))))))
       = [CM_registerChangeListener 0]"
  using attaching_registers_one_listener
      [of "exampleTab (Some (exampleConfig [] []))" 0 "exampleConfig [] []"]
  by (simp add: example_defs)

subsection \<open>A change of the configuration\<close>

lemma setConfig_Some:
  "setConfig (Some c) st =
     Inr (st\<lparr>data := (data st)
                \<lparr>keyBindingsFiles :=
                   (if length (keyBindingsFiles (data st))
                         \<noteq> length (SystemConfig.keyBindingsFiles (systemConfig c))
                    then SystemConfig.keyBindingsFiles (systemConfig c)
                    else keyBindingsFiles (data st)),
                 selectedKeyBindings := keyBindingsFilename c\<rparr>,
              assignments := assignments st
                @ (if length (keyBindingsFiles (data st))
                         \<noteq> length (SystemConfig.keyBindingsFiles (systemConfig c))
                   then [KeyBindingsFiles] else [])
                @ (if selectedKeyBindings (data st) \<noteq> keyBindingsFilename c
                   then [SelectedKeyBindings] else [])\<rparr>)"
  by (simp add: setConfig_def)

text \<open>
  Claim C5: when the config manager notifies the tab, the listener reads the snapshot
  again (one \<open>getConfig\<close>). It assigns the list of files of the model only when the
  length of the snapshot's list differs from the length of the model's list, and the
  selected file only when the snapshot's file name differs from the model's; when
  neither differs nothing is assigned and the model is as before. The stamp is never
  touched.
\<close>

theorem configChangeListener_assigns_only_on_difference:
  assumes "configOf st m = Some c"
  shows "returned (configChangeListener m st)
   \<and> calls (final (configChangeListener m st)) = calls st @ [CM_getConfig m]
   \<and> keyBindingsFiles (data (final (configChangeListener m st)))
       = (if length (keyBindingsFiles (data st))
               \<noteq> length (SystemConfig.keyBindingsFiles (systemConfig c))
          then SystemConfig.keyBindingsFiles (systemConfig c)
          else keyBindingsFiles (data st))
   \<and> selectedKeyBindings (data (final (configChangeListener m st))) = keyBindingsFilename c
   \<and> keyBindingsContextsStamp (data (final (configChangeListener m st)))
       = keyBindingsContextsStamp (data st)
   \<and> assignments (final (configChangeListener m st))
       = assignments st
         @ (if length (keyBindingsFiles (data st))
                 \<noteq> length (SystemConfig.keyBindingsFiles (systemConfig c))
            then [KeyBindingsFiles] else [])
         @ (if selectedKeyBindings (data st) \<noteq> keyBindingsFilename c
            then [SelectedKeyBindings] else [])
   \<and> (length (keyBindingsFiles (data st))
          = length (SystemConfig.keyBindingsFiles (systemConfig c))
        \<and> selectedKeyBindings (data st) = keyBindingsFilename c
      \<longrightarrow> data (final (configChangeListener m st)) = data st
          \<and> assignments (final (configChangeListener m st)) = assignments st)"
  using assms
  by (simp add: configChangeListener_def getConfig_def call_manager_def setConfig_Some
      returned_def final_def)

theorem configChangeListener_assigns_witness:
  "keyBindingsFiles (data (final (configChangeListener 0
       (final (configChangeListener 0 (exampleTab (Some (exampleConfig [''a'', ''b''] ''a''))))
          \<lparr>configOf := (\<lambda>m. Some (exampleConfig [''c'', ''d''] ''a''))\<rparr>))))
     = map profile [''a'', ''b'']
   \<and> assignments (final (configChangeListener 0
       (final (configChangeListener 0 (exampleTab (Some (exampleConfig [''a'', ''b''] ''a''))))
          \<lparr>configOf := (\<lambda>m. Some (exampleConfig [''c'', ''d''] ''a''))\<rparr>)))
     = [KeyBindingsFiles, SelectedKeyBindings]"
  using configChangeListener_assigns_only_on_difference
      [of "final (configChangeListener 0 (exampleTab (Some (exampleConfig [''a'', ''b''] ''a''))))
             \<lparr>configOf := (\<lambda>m. Some (exampleConfig [''c'', ''d''] ''a''))\<rparr>" 0
          "exampleConfig [''c'', ''d''] ''a''"]
    configChangeListener_assigns_only_on_difference
      [of "exampleTab (Some (exampleConfig [''a'', ''b''] ''a''))" 0
          "exampleConfig [''a'', ''b''] ''a''"]
  by (simp add: example_defs str_def)

text \<open>
  Claim C7 says that no failure leaves a notification handler: it is caught and logged,
  and the model counts as changed. The file has no \<open>try\<close>. When \<open>getConfig()\<close> returns
  \<open>null\<close>, as a config manager does before it has a configuration, the listener's
  TypeError goes to its caller, and nothing of the model has been assigned.
\<close>

theorem configChangeListener_throws_on_null_snapshot:
  "configChangeListener 0 (exampleTab None)
     = Inl (TypeError, call_manager (CM_getConfig 0) (exampleTab None))"
  by (simp add: configChangeListener_def getConfig_def setConfig_def example_defs)

text \<open>
  Claim C7, amended: \<open>_onKeyBindingChange\<close> cannot fail, and always assigns the stamp.
  The listener of the config manager returns normally exactly when \<open>getConfig()\<close>
  returns a snapshot; nothing is caught or logged: when \<open>getConfig()\<close> returns
  \<open>null\<close> the TypeError reaches the caller and the tab is left as it was, but for the
  recorded call.
\<close>

theorem handlers_fail_only_on_null_snapshot:
  "assignments (onKeyBindingChange now st) = assignments st @ [KeyBindingsContextsStamp]
   \<and> (returned (configChangeListener m st) \<longleftrightarrow> configOf st m \<noteq> None)
   \<and> (configOf st m = None \<longrightarrow>
        configChangeListener m st = Inl (TypeError, call_manager (CM_getConfig m) st))"
proof (cases "configOf st m")
  case None
  then show ?thesis
    by (simp add: onKeyBindingChange_def configChangeListener_def getConfig_def setConfig_def
        returned_def)
next
  case (Some c)
  then show ?thesis
    by (simp add: onKeyBindingChange_def configChangeListener_def getConfig_def setConfig_Some
        returned_def)
qed

theorem handlers_fail_only_on_null_snapshot_witness:
  "\<not> returned (configChangeListener 0 (exampleTab None))
   \<and> data (final (configChangeListener 0 (exampleTab None))) = data (exampleTab None)
   \<and> assignments (final (configChangeListener 0 (exampleTab None))) = []"
  using handlers_fail_only_on_null_snapshot [of 0 "exampleTab None" 0]
  by (simp add: example_defs final_def call_manager_def returned_def)

subsection \<open>The selected file and the list of files\<close>

text \<open>
  Claim C6 says that in every reachable state the selected file is empty or one of the
  files of the model's list. \<open>_setConfig\<close> takes the selected name from the snapshot
  as it is, and takes the list only when its length has changed. So a snapshot that
  names a file outside its own list breaks the invariant at once; and after a snapshot
  with the files \<open>a.json\<close>, \<open>b.json\<close>, a snapshot with \<open>c.json\<close>, \<open>d.json\<close> that
  selects \<open>c.json\<close> (both snapshots select a file of their own list) leaves the model
  with the old list and a selection that is not in it.
\<close>

theorem selection_outside_list_after_setConfig:
  "\<not> selectionInvariant (data (final (setConfig (Some (exampleConfig [''a.json''] ''x.json''))
          (exampleTab None))))
   \<and> wellFormedConfig (exampleConfig [''a.json'', ''b.json''] ''a.json'')
   \<and> wellFormedConfig (exampleConfig [''c.json'', ''d.json''] ''c.json'')
   \<and> selectionInvariant (data (final
        (setConfig (Some (exampleConfig [''a.json'', ''b.json''] ''a.json''))
          (exampleTab None))))
   \<and> \<not> selectionInvariant (data (final
        (setConfig (Some (exampleConfig [''c.json'', ''d.json''] ''c.json''))
          (final (setConfig (Some (exampleConfig [''a.json'', ''b.json''] ''a.json''))
             (exampleTab None))))))"
  by (simp add: wellFormedConfig_def selectionInvariant_def setConfig_Some final_def
      example_defs str_def)

lemma data_setKeyBindingManager: "data (setKeyBindingManager k st) = data st"
  by (simp add: setKeyBindingManager_def call_manager_def Let_def split: option.splits)

lemma data_detachedCallback: "data (detachedCallback st) = data st"
  by (simp add: detachedCallback_def call_manager_def Let_def split: option.splits)

lemma data_dataChanged: "data (final (dataChanged newVal st)) = data st"
  by (simp add: dataChanged_def getConfig_def call_manager_def ConfigManager_setConfig_def
      final_def split: option.splits)

lemma selectionInvariant_setConfig:
  assumes "wellFormedConfig c"
    and "length (keyBindingsFiles d) = length (SystemConfig.keyBindingsFiles (systemConfig c))
         \<Longrightarrow> keyBindingsFiles d = SystemConfig.keyBindingsFiles (systemConfig c)"
    and "data st = d"
  shows "selectionInvariant (data (final (setConfig (Some c) st)))"
  using assms
  by (auto simp: setConfig_Some final_def selectionInvariant_def wellFormedConfig_def)

text \<open>
  Claim C6, amended: the invariant holds when the tab has been created; the key binding
  notification, the two setters of managers, the detach, \<open>_dataChanged\<close> and a
  notification with a \<open>null\<close> snapshot leave the selected file and the list as they
  are; and \<open>_setConfig\<close> with a snapshot (called directly, by the listener or by
  \<open>setConfigManager\<close>) establishes the invariant provided that the snapshot's selected
  file is empty or in the snapshot's own list, and that the model's list, when it is as
  long as the snapshot's, is the snapshot's list.
\<close>

theorem selectionInvariant_kept_for_same_list:
  "selectionInvariant (data (createdCallback now st))
   \<and> (selectionInvariant (data st) \<longrightarrow> selectionInvariant (data (onKeyBindingChange now st)))
   \<and> data (setKeyBindingManager k st) = data st
   \<and> data (detachedCallback st) = data st
   \<and> data (final (dataChanged newVal st)) = data st
   \<and> data (final (setConfig None st)) = data st
   \<and> data (final (setConfigManager None st)) = data st
   \<and> (configOf st m = None \<longrightarrow>
        data (final (configChangeListener m st)) = data st
        \<and> data (final (setConfigManager (Some m) st)) = data st)
   \<and> (wellFormedConfig c
        \<and> (length (keyBindingsFiles (data st))
              = length (SystemConfig.keyBindingsFiles (systemConfig c))
           \<longrightarrow> keyBindingsFiles (data st) = SystemConfig.keyBindingsFiles (systemConfig c))
      \<longrightarrow> selectionInvariant (data (final (setConfig (Some c) st)))
          \<and> (configOf st m = Some c \<longrightarrow>
               selectionInvariant (data (final (configChangeListener m st)))
               \<and> selectionInvariant (data (final (setConfigManager (Some m) st)))))"
proof (intro conjI)
  show "selectionInvariant (data (createdCallback now st))"
    by (simp add: createdCallback_def initProperties_def selectionInvariant_def)
  show "selectionInvariant (data st) \<longrightarrow> selectionInvariant (data (onKeyBindingChange now st))"
    by (simp add: onKeyBindingChange_def selectionInvariant_def)
  show "data (final (setConfig None st)) = data st"
    by (simp add: setConfig_def final_def)
  show "data (final (setConfigManager None st)) = data st"
    by (simp add: setConfigManager_def final_def)
  show "configOf st m = None \<longrightarrow>
        data (final (configChangeListener m st)) = data st
        \<and> data (final (setConfigManager (Some m) st)) = data st"
    by (simp add: configChangeListener_def setConfigManager_def getConfig_def call_manager_def
        setConfig_def final_def)
  show "wellFormedConfig c
        \<and> (length (keyBindingsFiles (data st))
              = length (SystemConfig.keyBindingsFiles (systemConfig c))
           \<longrightarrow> keyBindingsFiles (data st) = SystemConfig.keyBindingsFiles (systemConfig c))
      \<longrightarrow> selectionInvariant (data (final (setConfig (Some c) st)))
          \<and> (configOf st m = Some c \<longrightarrow>
               selectionInvariant (data (final (configChangeListener m st)))
               \<and> selectionInvariant (data (final (setConfigManager (Some m) st))))"
    by (auto simp: configChangeListener_def setConfigManager_def getConfig_def call_manager_def
        intro!: selectionInvariant_setConfig)
qed (simp_all add: data_setKeyBindingManager data_detachedCallback data_dataChanged)

theorem selectionInvariant_kept_witness:
  "selectionInvariant (data (exampleTab None))
   \<and> wellFormedConfig (exampleConfig [''a.json'', ''b.json''] ''b.json'')
   \<and> selectionInvariant (data (final
        (setConfig (Some (exampleConfig [''a.json'', ''b.json''] ''b.json''))
          (exampleTab None))))
   \<and> selectedKeyBindings (data (final
        (setConfig (Some (exampleConfig [''a.json'', ''b.json''] ''b.json''))
          (exampleTab None)))) = str ''b.json''"
  using selectionInvariant_kept_for_same_list
      [of 1000 "exampleTab None" None "data (exampleTab None)" 0
          "exampleConfig [''a.json'', ''b.json''] ''b.json''"]
  by (simp add: example_defs wellFormedConfig_def selectionInvariant_def setConfig_Some
      final_def str_def)

subsection \<open>Formatting a shortcut\<close>

lemma split_plus_not_Nil: "split_plus code \<noteq> []"
  by (induction code) (auto split: list.splits)

lemma split_plus_no_plus: "p \<in> set (split_plus code) \<Longrightarrow> plus_sign \<notin> set p"
proof (induction code arbitrary: p)
  case Nil
  then show ?case by simp
next
  case (Cons c cs)
  show ?case
  proof (cases "c = plus_sign")
    case True
    with Cons show ?thesis by auto
  next
    case False
    obtain t ts where ts: "split_plus cs = t # ts"
      using split_plus_not_Nil [of cs] by (cases "split_plus cs") auto
    with False Cons.prems have "p = c # t \<or> p \<in> set ts" by auto
    then show ?thesis
      using False Cons.IH ts by auto
  qed
qed

lemma join_Cons_Cons: "ys \<noteq> [] \<Longrightarrow> join sep (x # ys) = x @ sep @ join sep ys"
  by (cases ys) simp_all

lemma join_split_plus: "join [plus_sign] (split_plus code) = code"
proof (induction code)
  case Nil
  show ?case by simp
next
  case (Cons c cs)
  obtain t ts where ts: "split_plus cs = t # ts"
    using split_plus_not_Nil [of cs] by (cases "split_plus cs") auto
  show ?case
  proof (cases "c = plus_sign")
    case True
    then show ?thesis
      using Cons.IH split_plus_not_Nil [of cs] by (simp add: join_Cons_Cons)
  next
    case False
    then show ?thesis
      using Cons.IH ts by (cases ts) simp_all
  qed
qed

lemma join_empty_sep: "join [] xs = concat xs"
  by (induction "[] :: jsstring" xs rule: join.induct) simp_all

text \<open>
  Claim C8: on a platform other than \<open>darwin\<close> the code comes back unchanged. On
  \<open>darwin\<close> the result is the concatenation, in order and with nothing in between, of
  the mapped pieces of the code, where the pieces are what lies between the plus signs
  (joined by plus signs they give the code back, and none contains a plus sign);
  \<open>Cmd\<close>, \<open>Shift\<close>, \<open>Alt\<close> and \<open>Ctrl\<close> are mapped to U+2318, U+21E7, U+2325
  and the caret, every other piece to itself. \<open>Cmd+Shift+K\<close> gives U+2318 U+21E7 K on
  \<open>darwin\<close> and itself on \<open>linux\<close>.
\<close>

theorem formatShortcut_by_platform:
  "(platform \<noteq> str ''darwin'' \<longrightarrow> formatShortcut platform code = code)
   \<and> formatShortcut (str ''darwin'') code = concat (map shortcutPart (split_plus code))
   \<and> join [plus_sign] (split_plus code) = code
   \<and> (\<forall>p \<in> set (split_plus code). plus_sign \<notin> set p)
   \<and> shortcutPart (str ''Cmd'') = [0x2318]
   \<and> shortcutPart (str ''Shift'') = [0x21E7]
   \<and> shortcutPart (str ''Alt'') = [0x2325]
   \<and> shortcutPart (str ''Ctrl'') = str ''^''
   \<and> (p \<notin> {str ''Cmd'', str ''Shift'', str ''Alt'', str ''Ctrl''} \<longrightarrow> shortcutPart p = p)
   \<and> formatShortcut (str ''darwin'') (str ''Cmd+Shift+K'') = [0x2318, 0x21E7, 0x4B]
   \<and> formatShortcut (str ''linux'') (str ''Cmd+Shift+K'') = str ''Cmd+Shift+K''"
proof (intro conjI)
  show "platform \<noteq> str ''darwin'' \<longrightarrow> formatShortcut platform code = code"
    by (simp add: formatShortcut_def)
  show "formatShortcut (str ''darwin'') code = concat (map shortcutPart (split_plus code))"
    by (simp add: formatShortcut_def join_empty_sep)
  show "join [plus_sign] (split_plus code) = code"
    by (rule join_split_plus)
  show "\<forall>p \<in> set (split_plus code). plus_sign \<notin> set p"
    using split_plus_no_plus by blast
  show "p \<notin> {str ''Cmd'', str ''Shift'', str ''Alt'', str ''Ctrl''} \<longrightarrow> shortcutPart p = p"
    by (simp add: shortcutPart_def)
  show "formatShortcut (str ''darwin'') (str ''Cmd+Shift+K'') = [0x2318, 0x21E7, 0x4B]"
    by (simp add: formatShortcut_def str_def shortcutPart_def plus_sign_def)
  show "formatShortcut (str ''linux'') (str ''Cmd+Shift+K'') = str ''Cmd+Shift+K''"
    by (simp add: formatShortcut_def str_def)
qed (simp_all add: shortcutPart_def str_def)

theorem formatShortcut_by_platform_witness:
  "formatShortcut (str ''win32'') (str ''Ctrl+Alt+F4'') = str ''Ctrl+Alt+F4''
   \<and> formatShortcut (str ''darwin'') (str ''Ctrl+Alt+F4'') = [0x5E, 0x2325, 0x46, 0x34]
   \<and> split_plus (str ''Ctrl+Alt+F4'') = [str ''Ctrl'', str ''Alt'', str ''F4'']
   \<and> shortcutPart (str ''F4'') = str ''F4''"
  using formatShortcut_by_platform [of "str ''win32''" "str ''Ctrl+Alt+F4''" "str ''F4''"]
  by (simp add: str_def plus_sign_def shortcutPart_def)

subsection \<open>The rows of the table\<close>

lemma compareBindings_le_0:
  "compareBindings commands a b \<le> 0
     \<longleftrightarrow> commandName commands (command a) \<le> commandName commands (command b)"
  by (auto simp: compareBindings_def Let_def)

lemma mset_insort_cmp: "mset (insort_cmp cmp x xs) = add_mset x (mset xs)"
  by (induction xs) simp_all

lemma mset_array_sort: "mset (array_sort cmp xs) = mset xs"
  by (induction xs) (simp_all add: mset_insort_cmp)

lemma set_insort_cmp: "set (insort_cmp cmp x xs) = insert x (set xs)"
  using mset_insort_cmp [of cmp x xs, THEN arg_cong, of set_mset] by simp

lemma sorted_insort_cmp:
  "sorted (map (\<lambda>b. commandName commands (command b)) xs) \<Longrightarrow>
   sorted (map (\<lambda>b. commandName commands (command b))
             (insort_cmp (compareBindings commands) x xs))"
proof (induction xs)
  case Nil
  show ?case by simp
next
  case (Cons y ys)
  show ?case
  proof (cases "compareBindings commands x y \<le> 0")
    case True
    then have "commandName commands (command x) \<le> commandName commands (command y)"
      by (simp add: compareBindings_le_0)
    with Cons.prems True show ?thesis by auto
  next
    case False
    then have "commandName commands (command y) \<le> commandName commands (command x)"
      by (simp add: compareBindings_le_0)
    with Cons False show ?thesis
      by (auto simp: set_insort_cmp)
  qed
qed

lemma sorted_array_sort:
  "sorted (map (\<lambda>b. commandName commands (command b))
             (array_sort (compareBindings commands) xs))"
  by (induction xs) (simp_all add: sorted_insort_cmp)

lemma formatKeyBindingsMapping_eq:
  assumes "keyBindings context < length h"
  shows "formatKeyBindingsMapping commands platform context h =
     (Inr (tableHead
           @ join (str ''\<newline>'')
               (map (tableRow commands platform)
                  (array_sort (compareBindings commands) (h ! keyBindings context)))
           @ str ''</table>''),
      h @ [array_sort (compareBindings commands) (h ! keyBindings context)])"
  using assms
  by (simp add: formatKeyBindingsMapping_def lodash_clone_def sort_in_place_def nth_append)

text \<open>
  Claim C9: the text of a table is the head, then one row for each binding, joined by
  line feeds, then the closing tag; the rows stand in the order of the sorted bindings,
  which are a rearrangement of the bindings of the context in which the resolved labels
  never decrease in the order of the code units, the order that the comparison function
  (\<open>- 1\<close> for less, \<open>1\<close> for greater, else \<open>0\<close>) decides. The bindings \<open>zoom\<close>,
  \<open>copy\<close> with the labels \<open>Zoom\<close>, \<open>Copy\<close> come out as \<open>copy\<close>, \<open>zoom\<close>; and
  since the order is not a collation, \<open>Zoom\<close> is less than \<open>copy\<close>.
\<close>

theorem formatKeyBindingsMapping_rows_sorted:
  assumes "keyBindings context < length h"
  shows "fst (formatKeyBindingsMapping commands platform context h) =
     Inr (tableHead
          @ join (str ''\<newline>'')
              (map (tableRow commands platform)
                 (array_sort (compareBindings commands) (h ! keyBindings context)))
          @ str ''</table>'')
   \<and> sorted (map (\<lambda>b. commandName commands (command b))
               (array_sort (compareBindings commands) (h ! keyBindings context)))
   \<and> sorted_wrt (\<lambda>a b. compareBindings commands a b \<le> 0)
               (array_sort (compareBindings commands) (h ! keyBindings context))
   \<and> mset (array_sort (compareBindings commands) (h ! keyBindings context))
       = mset (h ! keyBindings context)
   \<and> array_sort (compareBindings exampleLabels) [zoomBinding, copyBinding]
       = [copyBinding, zoomBinding]
   \<and> str ''Zoom'' < str ''copy''"
proof (intro conjI)
  show "sorted_wrt (\<lambda>a b. compareBindings commands a b \<le> 0)
          (array_sort (compareBindings commands) (h ! keyBindings context))"
    using sorted_array_sort [of commands "h ! keyBindings context"]
    by (simp add: sorted_map compareBindings_le_0)
  show "array_sort (compareBindings exampleLabels) [zoomBinding, copyBinding]
          = [copyBinding, zoomBinding]"
    by (simp add: compareBindings_def commandName_def exampleLabels_def zoomBinding_def
        copyBinding_def str_def)
  show "str ''Zoom'' < str ''copy''"
    by (simp add: str_def)
qed (simp_all add: formatKeyBindingsMapping_eq [OF assms] sorted_array_sort mset_array_sort)

theorem formatKeyBindingsMapping_rows_sorted_witness:
  "fst (formatKeyBindingsMapping exampleLabels (str ''linux'') \<lparr>keyBindings = 0\<rparr>
       [[zoomBinding, copyBinding]])
     = Inr (tableHead
            @ tableRow exampleLabels (str ''linux'') copyBinding
            @ str ''\<newline>''
            @ tableRow exampleLabels (str ''linux'') zoomBinding
            @ str ''</table>'')"
  using formatKeyBindingsMapping_rows_sorted
      [of "\<lparr>keyBindings = 0\<rparr>" "[[zoomBinding, copyBinding]]" exampleLabels "str ''linux''"]
  by simp

text \<open>
  Claim C10: formatting the table of a context leaves the array of the context as it
  was, elements and order: every array that was in the store is unchanged afterwards,
  and the only new thing is the sorted clone, put behind them. (Sorting in place the
  array of the example would have reordered it.)
\<close>

theorem formatKeyBindingsMapping_keeps_the_bindings:
  "take (length h) (snd (formatKeyBindingsMapping commands platform context h)) = h
   \<and> (keyBindings context < length h \<longrightarrow>
        snd (formatKeyBindingsMapping commands platform context h) ! keyBindings context
          = h ! keyBindings context
        \<and> snd (formatKeyBindingsMapping commands platform context h)
          = h @ [array_sort (compareBindings commands) (h ! keyBindings context)])"
proof (cases "keyBindings context < length h")
  case True
  then show ?thesis
    by (simp add: formatKeyBindingsMapping_eq nth_append)
next
  case False
  then show ?thesis
    by (simp add: formatKeyBindingsMapping_def)
qed

theorem formatKeyBindingsMapping_keeps_witness:
  "snd (formatKeyBindingsMapping exampleLabels (str ''linux'') \<lparr>keyBindings = 0\<rparr>
          [[zoomBinding, copyBinding]]) ! 0
     = [zoomBinding, copyBinding]
   \<and> snd (formatKeyBindingsMapping exampleLabels (str ''linux'') \<lparr>keyBindings = 0\<rparr>
          [[zoomBinding, copyBinding]])
     = [[zoomBinding, copyBinding], [copyBinding, zoomBinding]]
   \<and> sort_in_place (compareBindings exampleLabels) 0 [[zoomBinding, copyBinding]]
     = [[copyBinding, zoomBinding]]"
  using formatKeyBindingsMapping_keeps_the_bindings
      [of "[[zoomBinding, copyBinding]]" exampleLabels "str ''linux''" "\<lparr>keyBindings = 0\<rparr>"]
  by (simp add: sort_in_place_def compareBindings_def commandName_def exampleLabels_def
      zoomBinding_def copyBinding_def str_def)

end
